theory Spec2Isabelle
  imports Main "HOL-Library.Word"
begin

section \<open>Data model of the SASL server transport\<close>

text \<open>
  The development embeds \<^verbatim>\<open>be/src/transport/TSaslServerTransport.cpp\<close>:
  \<^verbatim>\<open>setSaslServer\<close>, \<^verbatim>\<open>handleSaslStartMessage\<close> and
  \<^verbatim>\<open>Factory::getTransport\<close>. Bytes and characters are both the 8-bit type
  \<^typ>\<open>char\<close>, as the source moves between \<^verbatim>\<open>uint8_t*\<close> and
  \<^verbatim>\<open>char*\<close> by \<^verbatim>\<open>reinterpret_cast\<close>; a buffer is a \<^typ>\<open>string\<close>.
\<close>

datatype NegotiationStatus = TSASL_START | TSASL_OK | TSASL_BAD | TSASL_ERROR | TSASL_COMPLETE

text \<open>
  Modelled from the spec: the numeric value of each status tag. The enum is declared in
  \<^verbatim>\<open>TSaslTransport.h\<close>; the values are those of the wire-frame table: START(1), OK(2),
  BAD(3), ERROR(4), COMPLETE(5).
\<close>

fun NegotiationStatus_value :: "NegotiationStatus \<Rightarrow> nat" where
  "NegotiationStatus_value TSASL_START = 1"
| "NegotiationStatus_value TSASL_OK = 2"
| "NegotiationStatus_value TSASL_BAD = 3"
| "NegotiationStatus_value TSASL_ERROR = 4"
| "NegotiationStatus_value TSASL_COMPLETE = 5"

text \<open>The exception class of the transport layer: a type tag and a message.\<close>

datatype TTransportExceptionType =
  UNKNOWN | NOT_OPEN | TIMED_OUT | END_OF_FILE | INTERRUPTED | BAD_ARGS | CORRUPTED_DATA
  | INTERNAL_ERROR

datatype TTransportException = TTransportException TTransportExceptionType string

text \<open>
  A registered mechanism: the fields of \<^verbatim>\<open>TSaslServerDefinition\<close> that the source reads.
  A callback descriptor is opaque and stands as a number. The members carry the source's
  names without the trailing underscore (\<^verbatim>\<open>protocol_\<close> is \<open>protocol\<close>, and so on for the
  members of the session below), which an Isabelle name cannot end with.
\<close>

record TSaslServerDefinition =
  protocol :: string
  serverName :: string
  flags :: "32 word"
  callbacks :: "nat list"

text \<open>
  Modelled from the spec: the authentication engine, class \<^verbatim>\<open>TSaslServer\<close>, which is
  defined outside \<^verbatim>\<open>TSaslServerTransport.cpp\<close> and is opaque to the transport. The model
  keeps the arguments it was constructed from
  (\<^verbatim>\<open>new TSaslServer(protocol, serverName, realm, flags, callbacks)\<close>, the callbacks
  being the array that starts at \<^verbatim>\<open>&callbacks_[0]\<close>) and, in order, the buffers handed to
  \<^verbatim>\<open>evaluateChallengeOrResponse\<close>, whose result the transport does not look at.
\<close>

record TSasl =
  engine_service :: string
  engine_serverFQDN :: string
  engine_userRealm :: string
  engine_flags :: "32 word"
  engine_callbacks :: "nat list"
  evaluated :: "string list"

definition TSaslServer :: "string \<Rightarrow> string \<Rightarrow> string \<Rightarrow> 32 word \<Rightarrow> nat list \<Rightarrow> TSasl" where
  "TSaslServer p n r f cb =
     \<lparr>engine_service = p, engine_serverFQDN = n, engine_userRealm = r, engine_flags = f,
      engine_callbacks = cb, evaluated = []\<rparr>"

definition evaluateChallengeOrResponse :: "string \<Rightarrow> TSasl \<Rightarrow> TSasl" where
  "evaluateChallengeOrResponse buf e = e\<lparr>evaluated := evaluated e @ [buf]\<rparr>"

text \<open>
  What \<^verbatim>\<open>receiveSaslMessage\<close> hands back: the status, and a pointer to a buffer of
  \<^verbatim>\<open>resLength\<close> payload bytes. \<open>payload\<close> is that buffer (\<^verbatim>\<open>resLength\<close> is its
  length); \<open>beyond\<close> is what lies in memory right after it, which a read through the
  pointer that does not stop at \<^verbatim>\<open>resLength\<close> runs into.
\<close>

record SaslMessage =
  status :: NegotiationStatus
  payload :: string
  beyond :: string

text \<open>
  The underlying transport, as far as the handshake is concerned. \<open>handle\<close> is its
  identity (the pointer value that a \<^verbatim>\<open>shared_ptr<TTransport>\<close> compares by), \<open>inbox\<close>
  holds the frames the peer has still to deliver on it and \<open>sent\<close> the frames written to
  it so far, oldest first.
\<close>

record TTransport =
  handle :: nat
  inbox :: "SaslMessage list"
  sent :: "(NegotiationStatus \<times> string) list"

text \<open>The session: the members of \<^verbatim>\<open>TSaslServerTransport\<close> and of its base class that
  the source reads or writes.\<close>

record TSaslServerTransport =
  isClient :: bool
  sasl :: "TSasl option"
  serverDefinitionMap :: "string \<rightharpoonup> TSaslServerDefinition"
  transport :: TTransport

section \<open>Helpers of the C++ runtime\<close>

text \<open>
  Conversion of a \<^verbatim>\<open>char*\<close> to \<^verbatim>\<open>std::string\<close>, and \<^verbatim>\<open>operator<<\<close> on a
  \<^verbatim>\<open>char*\<close>: the bytes from the pointer up to, not including, the first NUL byte. The
  argument is the memory from the pointer on; a read that meets no NUL byte in it ends
  where it ends.
\<close>

definition NUL :: char where
  "NUL = CHR 0x00"

definition c_str :: "string \<Rightarrow> string" where
  "c_str mem = takeWhile (\<lambda>c. c \<noteq> NUL) mem"

text \<open>\<^verbatim>\<open>operator<<\<close> on an enum value prints the decimal numeral of its integer value.\<close>

definition digit :: "nat \<Rightarrow> char" where
  "digit d = ''0123456789'' ! d"

function decimal :: "nat \<Rightarrow> string" where
  "decimal n = (if n < 10 then [digit n] else decimal (n div 10) @ [digit (n mod 10)])"
  by pat_completeness auto
termination
  by (relation "measure (\<lambda>n. n)") auto

declare decimal.simps [simp del]

section \<open>The wire codec as the session sees it\<close>

text \<open>
  Modelled from the spec: \<^verbatim>\<open>TSaslTransport::receiveSaslMessage\<close> and
  \<^verbatim>\<open>TSaslTransport::sendSaslMessage\<close>, which live in \<^verbatim>\<open>TSaslTransport.cpp\<close>.
  Receiving reads exactly one frame and fails when the stream ends first (the closed
  transport of the spec, here an exception of type \<^verbatim>\<open>END_OF_FILE\<close>); sending writes one
  frame of the given status and payload.
\<close>

definition receiveSaslMessage ::
  "TSaslServerTransport \<Rightarrow> TTransportException + (SaslMessage \<times> TSaslServerTransport)" where
  "receiveSaslMessage s =
     (case inbox (transport s) of
        [] \<Rightarrow> Inl (TTransportException END_OF_FILE [])
      | m # ms \<Rightarrow> Inr (m, s\<lparr>transport := (transport s)\<lparr>inbox := ms\<rparr>\<rparr>))"

definition sendSaslMessage ::
  "NegotiationStatus \<Rightarrow> string \<Rightarrow> TSaslServerTransport \<Rightarrow> TSaslServerTransport" where
  "sendSaslMessage st buf s =
     s\<lparr>transport := (transport s)\<lparr>sent := sent (transport s) @ [(st, buf)]\<rparr>\<rparr>"

section \<open>setSaslServer\<close>

text \<open>
  A member function that returns nothing is modelled by the exception it ends with, if
  any, paired with the session as it is left.
\<close>

definition setSaslServer ::
  "TSasl \<Rightarrow> TSaslServerTransport \<Rightarrow> (TTransportException + unit) \<times> TSaslServerTransport" where
  "setSaslServer saslServer s =
     (if isClient s
      then (Inl (TTransportException INTERNAL_ERROR ''Setting server in client transport''), s)
      else (Inr (), s\<lparr>sasl := Some saslServer\<rparr>))"

section \<open>handleSaslStartMessage\<close>

text \<open>
  A thrown exception leaves the effects that came before it: the frame already taken from
  the transport and the frame already sent. \<open>message\<close> is what can be read through the
  pointer that \<^verbatim>\<open>receiveSaslMessage\<close> returns. The registry lookup and the diagnostic
  read it as a C string; the engine is given its first \<^verbatim>\<open>resLength\<close> bytes.
\<close>

definition handleSaslStartMessage ::
  "TSaslServerTransport \<Rightarrow> (TTransportException + unit) \<times> TSaslServerTransport" where
  "handleSaslStartMessage s =
     (case receiveSaslMessage s of
        Inl e \<Rightarrow> (Inl e, s)
      | Inr (m, s1) \<Rightarrow>
          let message = payload m @ beyond m; resLength = length (payload m) in
          if status m \<noteq> TSASL_START then
            let ss = ''Expecting START status, received ''
                       @ decimal (NegotiationStatus_value (status m)) in
            (Inl (TTransportException UNKNOWN ss), sendSaslMessage TSASL_ERROR ss s1)
          else
            (case serverDefinitionMap s1 (c_str message) of
               None \<Rightarrow>
                 let ss = ''Unsupported mechanism type '' @ c_str message in
                 (Inl (TTransportException BAD_ARGS ss), sendSaslMessage TSASL_BAD ss s1)
             | Some serverDefinition \<Rightarrow>
                 let realm = [];
                     engine = TSaslServer (protocol serverDefinition)
                                (serverName serverDefinition) realm
                                (flags serverDefinition) (callbacks serverDefinition);
                     s2 = s1\<lparr>sasl := Some engine\<rparr>
                 in (Inr (),
                     s2\<lparr>sasl := Some (evaluateChallengeOrResponse
                                        (take resLength message) engine)\<rparr>)))"

section \<open>The factory and its cache\<close>

text \<open>
  The constructor \<^verbatim>\<open>TSaslServerTransport(serverMap, transport)\<close>. The range insert into
  the still empty \<^verbatim>\<open>serverDefinitionMap_\<close> keeps a key that is already there, so the map
  of the new session is \<open>serverMap ++ Map.empty\<close>.

  Modelled from the spec: the base-class constructor \<^verbatim>\<open>TSaslTransport(transport)\<close>, which
  lives in \<^verbatim>\<open>TSaslTransport.cpp\<close>. A new session is in the server role and has no engine
  yet.
\<close>

definition TSaslServerTransport_new ::
  "(string \<rightharpoonup> TSaslServerDefinition) \<Rightarrow> TTransport \<Rightarrow> TSaslServerTransport" where
  "TSaslServerTransport_new serverMap trans' =
     \<lparr>isClient = False, sasl = None, serverDefinitionMap = serverMap ++ Map.empty,
      transport = trans'\<rparr>"

text \<open>
  Session objects live on the heap and are handed around by \<^verbatim>\<open>shared_ptr\<close>: the store
  maps the address of each live session object to its contents, and the cache
  \<^verbatim>\<open>transportMap_\<close> maps the identity of an underlying transport to the address of its
  session. \<open>next_object\<close> is the address that the next \<^verbatim>\<open>new\<close> returns.
\<close>

record Heap =
  objects :: "nat \<rightharpoonup> TSaslServerTransport"
  next_object :: nat

record Factory =
  factory_serverDefinitionMap :: "string \<rightharpoonup> TSaslServerDefinition"
  transportMap :: "nat \<rightharpoonup> nat"

text \<open>
  \<^verbatim>\<open>Factory::getTransport\<close>, run by one caller from the lock to the return. \<open>open\<close> stands
  for \<^verbatim>\<open>TSaslTransport::open\<close>, the negotiation, which lives in \<^verbatim>\<open>TSaslTransport.cpp\<close>: it
  changes the session or throws. When it throws, the exception leaves \<^verbatim>\<open>getTransport\<close>
  before the assignment to \<^verbatim>\<open>transportMap_[trans]\<close>, and the only pointer to the new object,
  \<^verbatim>\<open>retTransport\<close>, goes out of scope, which deletes the object.
\<close>

definition getTransport ::
  "(TSaslServerTransport \<Rightarrow> TTransportException + TSaslServerTransport) \<Rightarrow> TTransport
     \<Rightarrow> Factory \<Rightarrow> Heap \<Rightarrow> (TTransportException + nat) \<times> Factory \<times> Heap" where
  "getTransport open trans' f h =
     (case transportMap f (handle trans') of
        None \<Rightarrow>
          let retTransport = next_object h;
              h1 = h\<lparr>objects := (objects h)(retTransport \<mapsto>
                                     TSaslServerTransport_new (factory_serverDefinitionMap f) trans'),
                     next_object := retTransport + 1\<rparr>
          in (case open (TSaslServerTransport_new (factory_serverDefinitionMap f) trans') of
                Inl e \<Rightarrow> (Inl e, f, h1\<lparr>objects := (objects h1)(retTransport := None)\<rparr>)
              | Inr s \<Rightarrow>
                  (Inr retTransport,
                   f\<lparr>transportMap := (transportMap f)(handle trans' \<mapsto> retTransport)\<rparr>,
                   h1\<lparr>objects := (objects h1)(retTransport \<mapsto> s)\<rparr>))
      | Some cached \<Rightarrow> (Inr cached, f, h))"

section \<open>Concurrent callers of getTransport\<close>

text \<open>
  Several threads run \<^verbatim>\<open>getTransport\<close> on one factory. A thread is at a line of the source
  (the constructors name the lines of \<^verbatim>\<open>TSaslServerTransport.cpp\<close>), with the value of
  \<^verbatim>\<open>retTransport\<close> or of the iterator where the line needs it, or it has left the call with
  a result or an exception.
  \<^item> \<open>L105\<close>: at the \<^verbatim>\<open>lock_guard\<close>, not yet holding the mutex;
  \<^item> \<open>L106\<close>: at the \<^verbatim>\<open>find\<close> and the test of its result;
  \<^item> \<open>L109\<close>: at the \<^verbatim>\<open>new\<close>;
  \<^item> \<open>L110 a\<close>: in \<^verbatim>\<open>open()\<close> on the new object \<open>a\<close>, the negotiation not yet over;
  \<^item> \<open>L111 a\<close>: at the assignment to \<^verbatim>\<open>transportMap_[trans]\<close>;
  \<^item> \<open>L113 a\<close>: at the copy of the cached pointer \<open>a\<close>;
  \<^item> \<open>L115 a\<close>: at the \<^verbatim>\<open>return\<close>.
  The \<^verbatim>\<open>lock_guard\<close> is a local of the function body: the mutex is released when the call
  is left, by \<^verbatim>\<open>return\<close> or by an exception, and not before.
\<close>

datatype pc =
  L105 | L106 | L109 | L110 nat | L111 nat | L113 nat | L115 nat
  | Returned nat | Thrown TTransportException

record thread =
  pc :: pc
  arg_trans :: TTransport

record System =
  factory :: Factory
  heap :: Heap
  transportMap_mutex :: "nat option"
  threads :: "nat \<Rightarrow> thread"

definition at_pc :: "nat \<Rightarrow> pc \<Rightarrow> System \<Rightarrow> System" where
  "at_pc i l \<sigma> = \<sigma>\<lparr>threads := (threads \<sigma>)(i := (threads \<sigma> i)\<lparr>pc := l\<rparr>)\<rparr>"

text \<open>
  One step of thread \<open>i\<close>; \<open>None\<close> when the thread cannot move: it waits for the mutex, or it
  has left the call.
\<close>

definition step ::
  "(TSaslServerTransport \<Rightarrow> TTransportException + TSaslServerTransport) \<Rightarrow> nat
     \<Rightarrow> System \<Rightarrow> System option" where
  "step open i \<sigma> =
     (let th = threads \<sigma> i; f = factory \<sigma>; h = heap \<sigma> in
      case pc th of
        L105 \<Rightarrow>
          (case transportMap_mutex \<sigma> of
             None \<Rightarrow> Some (at_pc i L106 (\<sigma>\<lparr>transportMap_mutex := Some i\<rparr>))
           | Some owner \<Rightarrow> None)
      | L106 \<Rightarrow>
          (case transportMap f (handle (arg_trans th)) of
             None \<Rightarrow> Some (at_pc i L109 \<sigma>)
           | Some cached \<Rightarrow> Some (at_pc i (L113 cached) \<sigma>))
      | L109 \<Rightarrow>
          Some (at_pc i (L110 (next_object h))
                 (\<sigma>\<lparr>heap := h\<lparr>objects := (objects h)(next_object h \<mapsto>
                                    TSaslServerTransport_new (factory_serverDefinitionMap f)
                                      (arg_trans th)),
                               next_object := next_object h + 1\<rparr>\<rparr>))
      | L110 a \<Rightarrow>
          (case objects h a of
             None \<Rightarrow> None
           | Some s0 \<Rightarrow>
               (case open s0 of
                  Inl e \<Rightarrow>
                    Some (at_pc i (Thrown e)
                           (\<sigma>\<lparr>heap := h\<lparr>objects := (objects h)(a := None)\<rparr>,
                              transportMap_mutex := None\<rparr>))
                | Inr s \<Rightarrow>
                    Some (at_pc i (L111 a) (\<sigma>\<lparr>heap := h\<lparr>objects := (objects h)(a \<mapsto> s)\<rparr>\<rparr>))))
      | L111 a \<Rightarrow>
          Some (at_pc i (L115 a)
                 (\<sigma>\<lparr>factory := f\<lparr>transportMap := (transportMap f)(handle (arg_trans th) \<mapsto> a)\<rparr>\<rparr>))
      | L113 a \<Rightarrow> Some (at_pc i (L115 a) \<sigma>)
      | L115 a \<Rightarrow> Some (at_pc i (Returned a) (\<sigma>\<lparr>transportMap_mutex := None\<rparr>))
      | Returned a \<Rightarrow> None
      | Thrown e \<Rightarrow> None)"

text \<open>A schedule names the thread to move next; a thread that cannot move is passed over.\<close>

fun exec ::
  "(TSaslServerTransport \<Rightarrow> TTransportException + TSaslServerTransport) \<Rightarrow> nat list
     \<Rightarrow> System \<Rightarrow> System" where
  "exec open [] \<sigma> = \<sigma>"
| "exec open (i # is) \<sigma> =
     exec open is (case step open i \<sigma> of None \<Rightarrow> \<sigma> | Some \<sigma>' \<Rightarrow> \<sigma>')"





section \<open>Example data\<close>

definition plain_definition :: TSaslServerDefinition where
  "plain_definition = \<lparr>protocol = ''impala'', serverName = ''host'', flags = 0, callbacks = [7]\<rparr>"

definition registry_plain :: "string \<rightharpoonup> TSaslServerDefinition" where
  "registry_plain = [''PLAIN'' \<mapsto> plain_definition]"

definition start_plain_user :: SaslMessage where
  "start_plain_user = \<lparr>status = TSASL_START, payload = ''PLAIN'' @ [NUL] @ ''user'', beyond = []\<rparr>"

text \<open>
  Frames without a NUL byte in the payload, as a peer that sends the bare mechanism name
  produces them, with different bytes behind the buffer.
\<close>

definition start_plain_xyz :: SaslMessage where
  "start_plain_xyz = \<lparr>status = TSASL_START, payload = ''PLAIN'', beyond = ''xyz'' @ [NUL]\<rparr>"

definition start_pla_in :: SaslMessage where
  "start_pla_in = \<lparr>status = TSASL_START, payload = ''PLA'', beyond = ''IN'' @ [NUL]\<rparr>"

definition start_gss_api :: SaslMessage where
  "start_gss_api = \<lparr>status = TSASL_START, payload = ''GSS'', beyond = ''API'' @ [NUL]\<rparr>"

definition start_gss_secret :: SaslMessage where
  "start_gss_secret =
     \<lparr>status = TSASL_START, payload = ''GSS'', beyond = ''_hunter2'' @ [NUL]\<rparr>"

definition start_plain :: SaslMessage where
  "start_plain = \<lparr>status = TSASL_START, payload = ''PLAIN'', beyond = [NUL]\<rparr>"

definition start_gssapi :: SaslMessage where
  "start_gssapi = \<lparr>status = TSASL_START, payload = ''GSSAPI'' @ [NUL] @ ''tok'', beyond = []\<rparr>"

definition ok_frame :: SaslMessage where
  "ok_frame = \<lparr>status = TSASL_OK, payload = ''PLAIN'' @ [NUL], beyond = []\<rparr>"

definition wire0 :: "nat \<Rightarrow> SaslMessage list \<Rightarrow> TTransport" where
  "wire0 n ms = \<lparr>handle = n, inbox = ms, sent = []\<rparr>"

definition session0 :: "SaslMessage list \<Rightarrow> TSaslServerTransport" where
  "session0 ms = \<lparr>isClient = False, sasl = None, serverDefinitionMap = registry_plain,
                  transport = wire0 0 ms\<rparr>"

definition engine0 :: TSasl where
  "engine0 = TSaslServer ''p'' ''n'' [] 0 []"

text \<open>
  An example of a negotiation for the factory to run: the START step alone.
\<close>

definition open_start :: "TSaslServerTransport \<Rightarrow> TTransportException + TSaslServerTransport" where
  "open_start s = (case handleSaslStartMessage s of (Inl e, s') \<Rightarrow> Inl e | (Inr u, s') \<Rightarrow> Inr s')"

definition factory0 :: Factory where
  "factory0 = \<lparr>factory_serverDefinitionMap = registry_plain, transportMap = Map.empty\<rparr>"

definition heap0 :: Heap where
  "heap0 = \<lparr>objects = Map.empty, next_object = 0\<rparr>"

definition session_plain :: TSaslServerTransport where
  "session_plain =
     \<lparr>isClient = False,
      sasl = Some \<lparr>engine_service = ''impala'', engine_serverFQDN = ''host'',
                   engine_userRealm = [], engine_flags = 0, engine_callbacks = [7],
                   evaluated = [''PLAIN'' @ [NUL] @ ''user'']\<rparr>,
      serverDefinitionMap = registry_plain, transport = wire0 5 []\<rparr>"


section \<open>Facts about the helpers\<close>

lemma c_str_append:
  "NUL \<in> set p \<Longrightarrow> c_str (p @ b) = c_str p"
  by (simp add: c_str_def)

lemma c_str_no_NUL:
  "NUL \<notin> set (c_str mem)"
  by (auto simp: c_str_def dest: set_takeWhileD)

lemma decimal_small:
  "n < 10 \<Longrightarrow> decimal n = [digit n]"
  by (subst decimal.simps) simp

lemma receiveSaslMessage_same:
  assumes "receiveSaslMessage s = Inr (m, s1)"
  shows "sasl s1 = sasl s" and "sent (transport s1) = sent (transport s)"
    and "serverDefinitionMap s1 = serverDefinitionMap s" and "isClient s1 = isClient s"
  using assms by (auto simp: receiveSaslMessage_def split: list.splits)

lemma receiveSaslMessage_registry:
  assumes "receiveSaslMessage s = Inr (m, s1)"
  shows "receiveSaslMessage (s\<lparr>serverDefinitionMap := r\<rparr>) = Inr (m, s1\<lparr>serverDefinitionMap := r\<rparr>)"
  using assms by (auto simp: receiveSaslMessage_def split: list.splits)

text \<open>
  The buffer is terminated when a NUL byte lies in the payload or directly behind its
  last byte; the C string read at the buffer is then the payload up to its first NUL
  byte, the whole payload if it has none.
\<close>

lemma c_str_terminated:
  assumes "NUL \<in> set p \<or> take 1 b = [NUL]"
  shows "c_str (p @ b) = takeWhile (\<lambda>c. c \<noteq> NUL) p"
proof (cases "NUL \<in> set p")
  case True
  then show ?thesis
    by (simp add: c_str_def)
next
  case False
  with assms obtain r where b: "b = NUL # r"
    by (cases b) auto
  from False have all: "\<forall>c \<in> set p. c \<noteq> NUL"
    by auto
  then have 1: "takeWhile (\<lambda>c. c \<noteq> NUL) (p @ b) = p @ takeWhile (\<lambda>c. c \<noteq> NUL) b"
    by simp
  from all have 2: "takeWhile (\<lambda>c. c \<noteq> NUL) p = p"
    by simp
  have "c_str (p @ b) = p @ takeWhile (\<lambda>c. c \<noteq> NUL) b"
    unfolding c_str_def by (rule 1)
  also have "\<dots> = p"
    using b by simp
  also have "p = takeWhile (\<lambda>c. c \<noteq> NUL) p"
    by (rule 2 [symmetric])
  finally show ?thesis .
qed

text \<open>
  What the function does with a START frame, in full: the registry is searched for the C
  string read at the buffer, and the outcome is the BAD frame with the exception, or the
  new engine with the payload handed to it.
\<close>

lemma handleSaslStartMessage_start:
  assumes "receiveSaslMessage s = Inr (m, s1)" and "status m = TSASL_START"
  shows "handleSaslStartMessage s =
           (case serverDefinitionMap s (c_str (payload m @ beyond m)) of
              None \<Rightarrow>
                (Inl (TTransportException BAD_ARGS
                       (''Unsupported mechanism type '' @ c_str (payload m @ beyond m))),
                 sendSaslMessage TSASL_BAD
                   (''Unsupported mechanism type '' @ c_str (payload m @ beyond m)) s1)
            | Some d \<Rightarrow>
                (Inr (),
                 s1\<lparr>sasl := Some ((TSaslServer (protocol d) (serverName d) [] (flags d)
                                      (callbacks d))\<lparr>evaluated := [payload m]\<rparr>)\<rparr>))"
  using assms receiveSaslMessage_same [OF assms(1)]
  by (simp add: handleSaslStartMessage_def Let_def evaluateChallengeOrResponse_def
      TSaslServer_def split: option.splits)

section \<open>Properties of setSaslServer and handleSaslStartMessage\<close>

text \<open>
  C10. \<^verbatim>\<open>setSaslServer\<close> on a transport in the client role raises a transport exception
  of type \<^verbatim>\<open>INTERNAL_ERROR\<close> and leaves the session, its engine included, as it was; on
  a transport in the server role it returns normally and the engine of the session is the
  one given, no other member changing.
\<close>

theorem setSaslServer_role:
  "(isClient s \<longrightarrow>
      setSaslServer e s =
        (Inl (TTransportException INTERNAL_ERROR ''Setting server in client transport''), s))
   \<and> (\<not> isClient s \<longrightarrow> setSaslServer e s = (Inr (), s\<lparr>sasl := Some e\<rparr>))"
  by (simp add: setSaslServer_def)

theorem setSaslServer_role_witness:
  "isClient ((session0 [])\<lparr>isClient := True\<rparr>)
   \<and> setSaslServer engine0 ((session0 [])\<lparr>isClient := True\<rparr>) =
       (Inl (TTransportException INTERNAL_ERROR ''Setting server in client transport''),
        (session0 [])\<lparr>isClient := True\<rparr>)
   \<and> sasl (snd (setSaslServer engine0 ((session0 [])\<lparr>isClient := True\<rparr>))) = None
   \<and> \<not> isClient (session0 [])
   \<and> sasl (snd (setSaslServer engine0 (session0 []))) = Some engine0"
  using setSaslServer_role [of "(session0 [])\<lparr>isClient := True\<rparr>" engine0]
    setSaslServer_role [of "session0 []" engine0]
  by (simp add: session0_def)

text \<open>
  C2. When the first frame received has a status other than START, the function sends one
  frame of status ERROR whose payload is the text
  \<^verbatim>\<open>Expecting START status, received <n>\<close>, and then throws a transport exception
  carrying the same text (the protocol violation). The engine of the session is not
  touched, and the registry plays no part: with any other registry in its place, the
  exception, the frames sent and the engine are the same.
\<close>

theorem handleSaslStartMessage_not_start:
  assumes "receiveSaslMessage s = Inr (m, s1)" and "status m \<noteq> TSASL_START"
  shows "handleSaslStartMessage s =
           (Inl (TTransportException UNKNOWN
                  (''Expecting START status, received ''
                     @ decimal (NegotiationStatus_value (status m)))),
            sendSaslMessage TSASL_ERROR
              (''Expecting START status, received ''
                 @ decimal (NegotiationStatus_value (status m))) s1)
         \<and> sent (transport (snd (handleSaslStartMessage s))) =
             sent (transport s) @ [(TSASL_ERROR, ''Expecting START status, received ''
                                      @ decimal (NegotiationStatus_value (status m)))]
         \<and> sasl (snd (handleSaslStartMessage s)) = sasl s
         \<and> handleSaslStartMessage (s\<lparr>serverDefinitionMap := r\<rparr>) =
             (fst (handleSaslStartMessage s),
              (snd (handleSaslStartMessage s))\<lparr>serverDefinitionMap := r\<rparr>)"
  using assms receiveSaslMessage_same [OF assms(1)] receiveSaslMessage_registry [OF assms(1)]
  by (simp add: handleSaslStartMessage_def sendSaslMessage_def Let_def)

theorem handleSaslStartMessage_not_start_witness:
  "receiveSaslMessage (session0 [ok_frame]) = Inr (ok_frame, session0 [])
   \<and> status ok_frame \<noteq> TSASL_START
   \<and> handleSaslStartMessage (session0 [ok_frame]) =
       (Inl (TTransportException UNKNOWN ''Expecting START status, received 2''),
        sendSaslMessage TSASL_ERROR ''Expecting START status, received 2'' (session0 []))
   \<and> sent (transport (snd (handleSaslStartMessage (session0 [ok_frame])))) =
       [(TSASL_ERROR, ''Expecting START status, received 2'')]"
proof -
  have r: "receiveSaslMessage (session0 [ok_frame]) = Inr (ok_frame, session0 [])"
    by (simp add: receiveSaslMessage_def session0_def wire0_def)
  have n: "status ok_frame \<noteq> TSASL_START"
    by (simp add: ok_frame_def)
  have d: "decimal (NegotiationStatus_value (status ok_frame)) = ''2''"
    by (simp add: ok_frame_def decimal_small digit_def)
  from handleSaslStartMessage_not_start [OF r n, THEN conjunct1]
    handleSaslStartMessage_not_start [OF r n, THEN conjunct2, THEN conjunct1] r n d
  show ?thesis
    by (simp add: session0_def wire0_def)
qed

text \<open>
  C1. A START frame whose payload names no mechanism of the registry is to be answered by
  a BAD frame and an exception, with no engine created. The code does not do so at the
  frame whose payload is the three bytes \<^verbatim>\<open>PLA\<close> when the bytes \<^verbatim>\<open>IN\<close> and a NUL byte
  lie behind the buffer: \<^verbatim>\<open>PLA\<close> is no key of the registry, yet the lookup of line 82
  reads the buffer as a C string, past its \<^verbatim>\<open>resLength\<close> bytes, and finds \<^verbatim>\<open>PLAIN\<close>. The
  function returns normally, the session has an engine, and no frame has been sent.
\<close>

theorem handleSaslStartMessage_unsupported_overread:
  "status start_pla_in = TSASL_START
   \<and> payload start_pla_in = ''PLA''
   \<and> serverDefinitionMap (session0 [start_pla_in]) ''PLA'' = None
   \<and> receiveSaslMessage (session0 [start_pla_in]) = Inr (start_pla_in, session0 [])
   \<and> handleSaslStartMessage (session0 [start_pla_in]) =
       (Inr (),
        (session0 [])\<lparr>sasl := Some \<lparr>engine_service = ''impala'', engine_serverFQDN = ''host'',
                                    engine_userRealm = [], engine_flags = 0,
                                    engine_callbacks = [7], evaluated = [''PLA'']\<rparr>\<rparr>)
   \<and> sent (transport (snd (handleSaslStartMessage (session0 [start_pla_in])))) = []"
  by (simp add: handleSaslStartMessage_def receiveSaslMessage_def session0_def wire0_def
      Let_def start_pla_in_def registry_plain_def plain_definition_def c_str_def NUL_def
      TSaslServer_def evaluateChallengeOrResponse_def)

text \<open>
  C3 as written does not hold: the buffer handed to the first evaluation step of the
  engine is not what follows the mechanism name. With the payload \<^verbatim>\<open>PLAIN\0user\<close> the
  engine receives all ten bytes, not \<^verbatim>\<open>user\<close>, not \<^verbatim>\<open>\0user\<close> and not the empty
  buffer; with the payload \<^verbatim>\<open>PLAIN\<close> it receives \<^verbatim>\<open>PLAIN\<close>, not the empty buffer.
\<close>

theorem handleSaslStartMessage_forwards_counterexample:
  "map_option evaluated (sasl (snd (handleSaslStartMessage (session0 [start_plain_user]))))
     = Some [''PLAIN'' @ [NUL] @ ''user'']
   \<and> map_option evaluated (sasl (snd (handleSaslStartMessage (session0 [start_plain_user]))))
     \<noteq> Some [''user'']
   \<and> map_option evaluated (sasl (snd (handleSaslStartMessage (session0 [start_plain_user]))))
     \<noteq> Some [[NUL] @ ''user'']
   \<and> map_option evaluated (sasl (snd (handleSaslStartMessage (session0 [start_plain_user]))))
     \<noteq> Some [[]]
   \<and> map_option evaluated (sasl (snd (handleSaslStartMessage (session0 [start_plain]))))
     = Some [''PLAIN'']
   \<and> map_option evaluated (sasl (snd (handleSaslStartMessage (session0 [start_plain]))))
     \<noteq> Some [[]]"
  by (simp add: handleSaslStartMessage_def receiveSaslMessage_def session0_def wire0_def
      Let_def start_plain_user_def start_plain_def registry_plain_def c_str_def NUL_def
      TSaslServer_def evaluateChallengeOrResponse_def)

text \<open>
  C3, amended. When the first frame has status START, its buffer is terminated (a NUL
  byte lies in the payload or directly behind its last byte), and the payload up to its
  first NUL byte, the whole payload if it has none, is a key of the registry, the function
  returns normally; the engine of the session is a new one, built from the protocol, the
  server name, the flags and the callbacks of the definition registered under that name
  and an empty realm; and that engine has been given exactly one buffer to evaluate, the
  whole START payload (its \<^verbatim>\<open>resLength\<close> bytes, mechanism name included). The function
  itself sends no frame. Nothing is said here of a buffer that is not terminated.
\<close>

theorem handleSaslStartMessage_registered:
  assumes "receiveSaslMessage s = Inr (m, s1)" and "status m = TSASL_START"
    and "NUL \<in> set (payload m) \<or> take 1 (beyond m) = [NUL]"
    and "serverDefinitionMap s (takeWhile (\<lambda>c. c \<noteq> NUL) (payload m)) = Some d"
  shows "handleSaslStartMessage s =
           (Inr (),
            s1\<lparr>sasl := Some ((TSaslServer (protocol d) (serverName d) [] (flags d) (callbacks d))
                              \<lparr>evaluated := [payload m]\<rparr>)\<rparr>)
         \<and> sent (transport (snd (handleSaslStartMessage s))) = sent (transport s)"
  using assms(4) receiveSaslMessage_same [OF assms(1)]
  by (simp add: handleSaslStartMessage_start [OF assms(1,2)] c_str_terminated [OF assms(3)])

theorem handleSaslStartMessage_registered_witness:
  "receiveSaslMessage (session0 [start_plain_user]) = Inr (start_plain_user, session0 [])
   \<and> status start_plain_user = TSASL_START
   \<and> NUL \<in> set (payload start_plain_user)
   \<and> serverDefinitionMap (session0 [start_plain_user])
        (takeWhile (\<lambda>c. c \<noteq> NUL) (payload start_plain_user)) = Some plain_definition
   \<and> handleSaslStartMessage (session0 [start_plain_user]) =
       (Inr (),
        (session0 [])\<lparr>sasl := Some \<lparr>engine_service = ''impala'', engine_serverFQDN = ''host'',
                                    engine_userRealm = [], engine_flags = 0,
                                    engine_callbacks = [7],
                                    evaluated = [''PLAIN'' @ [NUL] @ ''user'']\<rparr>\<rparr>)
   \<and> receiveSaslMessage (session0 [start_plain]) = Inr (start_plain, session0 [])
   \<and> status start_plain = TSASL_START
   \<and> take 1 (beyond start_plain) = [NUL]
   \<and> serverDefinitionMap (session0 [start_plain])
        (takeWhile (\<lambda>c. c \<noteq> NUL) (payload start_plain)) = Some plain_definition
   \<and> handleSaslStartMessage (session0 [start_plain]) =
       (Inr (),
        (session0 [])\<lparr>sasl := Some \<lparr>engine_service = ''impala'', engine_serverFQDN = ''host'',
                                    engine_userRealm = [], engine_flags = 0,
                                    engine_callbacks = [7], evaluated = [''PLAIN'']\<rparr>\<rparr>)"
proof -
  have r: "receiveSaslMessage (session0 [start_plain_user]) = Inr (start_plain_user, session0 [])"
    by (simp add: receiveSaslMessage_def session0_def wire0_def)
  have n: "status start_plain_user = TSASL_START"
    by (simp add: start_plain_user_def)
  have z: "NUL \<in> set (payload start_plain_user)"
    by (simp add: start_plain_user_def)
  have l: "serverDefinitionMap (session0 [start_plain_user])
             (takeWhile (\<lambda>c. c \<noteq> NUL) (payload start_plain_user)) = Some plain_definition"
    by (simp add: start_plain_user_def NUL_def session0_def registry_plain_def)
  have p: "payload start_plain_user = ''PLAIN'' @ [NUL] @ ''user''"
    by (simp add: start_plain_user_def)
  from handleSaslStartMessage_registered [OF r n disjI1 [OF z] l, THEN conjunct1] p
  have a: "handleSaslStartMessage (session0 [start_plain_user]) =
             (Inr (),
              (session0 [])\<lparr>sasl := Some \<lparr>engine_service = ''impala'',
                                          engine_serverFQDN = ''host'',
                                          engine_userRealm = [], engine_flags = 0,
                                          engine_callbacks = [7],
                                          evaluated = [''PLAIN'' @ [NUL] @ ''user'']\<rparr>\<rparr>)"
    by (simp add: session0_def plain_definition_def TSaslServer_def)
  have r': "receiveSaslMessage (session0 [start_plain]) = Inr (start_plain, session0 [])"
    by (simp add: receiveSaslMessage_def session0_def wire0_def)
  have n': "status start_plain = TSASL_START"
    by (simp add: start_plain_def)
  have z': "take 1 (beyond start_plain) = [NUL]"
    by (simp add: start_plain_def)
  have l': "serverDefinitionMap (session0 [start_plain])
              (takeWhile (\<lambda>c. c \<noteq> NUL) (payload start_plain)) = Some plain_definition"
    by (simp add: start_plain_def NUL_def session0_def registry_plain_def)
  have p': "payload start_plain = ''PLAIN''"
    by (simp add: start_plain_def)
  from handleSaslStartMessage_registered [OF r' n' disjI2 [OF z'] l', THEN conjunct1] p'
  have b: "handleSaslStartMessage (session0 [start_plain]) =
             (Inr (),
              (session0 [])\<lparr>sasl := Some \<lparr>engine_service = ''impala'',
                                          engine_serverFQDN = ''host'',
                                          engine_userRealm = [], engine_flags = 0,
                                          engine_callbacks = [7], evaluated = [''PLAIN'']\<rparr>\<rparr>)"
    by (simp add: session0_def plain_definition_def TSaslServer_def)
  from r n z l a r' n' z' l' b show ?thesis
    by simp
qed

text \<open>
  C7. The payload of a diagnostic frame is to depend on nothing but the status and the
  mechanism name received, and is to hold nothing else. The code does not keep to this at
  a START frame whose payload is the three bytes \<^verbatim>\<open>GSS\<close>: line 85 prints the buffer as
  a C string, past its \<^verbatim>\<open>resLength\<close> bytes, so the BAD frame carries whatever lies behind
  the buffer up to the next NUL byte. The same status and the same payload give
  \<^verbatim>\<open>Unsupported mechanism type GSSAPI\<close> with \<^verbatim>\<open>API\<close> behind the buffer and
  \<^verbatim>\<open>Unsupported mechanism type GSS_hunter2\<close> with \<^verbatim>\<open>_hunter2\<close> behind it: bytes that
  the peer never sent go out to the peer.
\<close>

theorem handleSaslStartMessage_diagnostic_overread:
  "status start_gss_api = status start_gss_secret
   \<and> payload start_gss_api = payload start_gss_secret
   \<and> payload start_gss_api = ''GSS''
   \<and> sent (transport (snd (handleSaslStartMessage (session0 [start_gss_api])))) =
       [(TSASL_BAD, ''Unsupported mechanism type GSSAPI'')]
   \<and> sent (transport (snd (handleSaslStartMessage (session0 [start_gss_secret])))) =
       [(TSASL_BAD, ''Unsupported mechanism type GSS_hunter2'')]"
  by (simp add: handleSaslStartMessage_def receiveSaslMessage_def sendSaslMessage_def
      session0_def wire0_def Let_def start_gss_api_def start_gss_secret_def
      registry_plain_def c_str_def NUL_def)

text \<open>
  C8. The mechanism found for a START frame is to depend on the payload alone, on its
  bytes before the first NUL byte. The code does not keep to this when the payload holds
  no NUL byte, since the lookup of line 82 reads the buffer as a C string, past its
  \<^verbatim>\<open>resLength\<close> bytes. Two frames with the same payload \<^verbatim>\<open>PLAIN\<close> end differently: with
  a NUL byte directly behind the buffer the mechanism \<^verbatim>\<open>PLAIN\<close> is found and its engine
  created; with \<^verbatim>\<open>xyz\<close> behind the buffer the key looked up is \<^verbatim>\<open>PLAINxyz\<close>, nothing is
  found, and the call ends with the exception for an unsupported mechanism.
\<close>

theorem handleSaslStartMessage_lookup_overread:
  "status start_plain = status start_plain_xyz
   \<and> payload start_plain = payload start_plain_xyz
   \<and> payload start_plain = ''PLAIN''
   \<and> fst (handleSaslStartMessage (session0 [start_plain])) = Inr ()
   \<and> sasl (snd (handleSaslStartMessage (session0 [start_plain]))) =
       Some \<lparr>engine_service = ''impala'', engine_serverFQDN = ''host'', engine_userRealm = [],
             engine_flags = 0, engine_callbacks = [7], evaluated = [''PLAIN'']\<rparr>
   \<and> fst (handleSaslStartMessage (session0 [start_plain_xyz])) =
       Inl (TTransportException BAD_ARGS ''Unsupported mechanism type PLAINxyz'')
   \<and> sasl (snd (handleSaslStartMessage (session0 [start_plain_xyz]))) = None"
  by (simp add: handleSaslStartMessage_def receiveSaslMessage_def sendSaslMessage_def
      session0_def wire0_def Let_def start_plain_def start_plain_xyz_def
      registry_plain_def plain_definition_def c_str_def NUL_def TSaslServer_def
      evaluateChallengeOrResponse_def)

section \<open>Properties of Factory::getTransport\<close>

lemma open_start_plain:
  "open_start (TSaslServerTransport_new registry_plain (wire0 5 [start_plain_user]))
     = Inr session_plain"
  by (simp add: open_start_def handleSaslStartMessage_def receiveSaslMessage_def Let_def
      TSaslServerTransport_new_def wire0_def start_plain_user_def registry_plain_def
      c_str_def NUL_def TSaslServer_def evaluateChallengeOrResponse_def session_plain_def
      plain_definition_def)

lemma open_start_gssapi:
  "open_start (TSaslServerTransport_new registry_plain (wire0 6 [start_gssapi]))
     = Inl (TTransportException BAD_ARGS ''Unsupported mechanism type GSSAPI'')"
  by (simp add: open_start_def handleSaslStartMessage_def receiveSaslMessage_def Let_def
      TSaslServerTransport_new_def wire0_def start_gssapi_def registry_plain_def
      c_str_def NUL_def sendSaslMessage_def)

text \<open>
  C5. If the cache holds a session for the underlying transport, \<^verbatim>\<open>getTransport\<close>
  returns the address of that very object and changes neither the cache nor any session
  object, whatever the negotiation would do and whatever state the cached session is in:
  the negotiation is not run again. If the cache holds none and the negotiation of the new
  session succeeds, the call returns the address of a new object, which holds the session
  constructed from the registry of the factory and the transport and then opened, and
  the cache maps the transport to that address; a further call for the same transport
  then returns the same address and changes nothing.
\<close>

theorem getTransport_cached_or_new:
  "(transportMap f (handle trans') = Some cached \<longrightarrow>
      getTransport open trans' f h = (Inr cached, f, h))
   \<and> (transportMap f (handle trans') = None
      \<and> open (TSaslServerTransport_new (factory_serverDefinitionMap f) trans') = Inr s \<longrightarrow>
        getTransport open trans' f h =
          (Inr (next_object h),
           f\<lparr>transportMap := (transportMap f)(handle trans' \<mapsto> next_object h)\<rparr>,
           h\<lparr>objects := (objects h)(next_object h \<mapsto> s), next_object := next_object h + 1\<rparr>)
        \<and> serverDefinitionMap (TSaslServerTransport_new (factory_serverDefinitionMap f) trans')
            = factory_serverDefinitionMap f
        \<and> transport (TSaslServerTransport_new (factory_serverDefinitionMap f) trans') = trans'
        \<and> getTransport open2 trans'
            (fst (snd (getTransport open trans' f h))) (snd (snd (getTransport open trans' f h)))
            = (Inr (next_object h), snd (getTransport open trans' f h)))"
  by (simp add: getTransport_def Let_def TSaslServerTransport_new_def)

theorem getTransport_cached_or_new_witness:
  "transportMap factory0 (handle (wire0 5 [start_plain_user])) = None
   \<and> open_start (TSaslServerTransport_new (factory_serverDefinitionMap factory0)
                   (wire0 5 [start_plain_user])) = Inr session_plain
   \<and> getTransport open_start (wire0 5 [start_plain_user]) factory0 heap0 =
       (Inr 0, factory0\<lparr>transportMap := [5 \<mapsto> 0]\<rparr>,
        \<lparr>objects = [0 \<mapsto> session_plain], next_object = 1\<rparr>)
   \<and> transportMap (factory0\<lparr>transportMap := [5 \<mapsto> 0]\<rparr>) (handle (wire0 5 [])) = Some 0
   \<and> getTransport open_start (wire0 5 []) (factory0\<lparr>transportMap := [5 \<mapsto> 0]\<rparr>)
        \<lparr>objects = [0 \<mapsto> session_plain], next_object = 1\<rparr> =
       (Inr 0, factory0\<lparr>transportMap := [5 \<mapsto> 0]\<rparr>,
        \<lparr>objects = [0 \<mapsto> session_plain], next_object = 1\<rparr>)"
proof -
  have m: "transportMap factory0 (handle (wire0 5 [start_plain_user])) = None"
    by (simp add: factory0_def)
  have o: "open_start (TSaslServerTransport_new (factory_serverDefinitionMap factory0)
                         (wire0 5 [start_plain_user])) = Inr session_plain"
    by (simp add: factory0_def open_start_plain)
  have c: "transportMap (factory0\<lparr>transportMap := [5 \<mapsto> 0]\<rparr>) (handle (wire0 5 [])) = Some 0"
    by (simp add: wire0_def)
  from getTransport_cached_or_new
         [of factory0 "wire0 5 [start_plain_user]" _ open_start heap0 session_plain, THEN conjunct2]
       m o
  have a: "getTransport open_start (wire0 5 [start_plain_user]) factory0 heap0 =
             (Inr 0, factory0\<lparr>transportMap := [5 \<mapsto> 0]\<rparr>,
              \<lparr>objects = [0 \<mapsto> session_plain], next_object = 1\<rparr>)"
    by (simp add: heap0_def wire0_def factory0_def)
  from getTransport_cached_or_new
         [of "factory0\<lparr>transportMap := [5 \<mapsto> 0]\<rparr>" "wire0 5 []" 0 open_start
             "\<lparr>objects = [0 \<mapsto> session_plain], next_object = 1\<rparr>", THEN conjunct1] c
  have b: "getTransport open_start (wire0 5 []) (factory0\<lparr>transportMap := [5 \<mapsto> 0]\<rparr>)
             \<lparr>objects = [0 \<mapsto> session_plain], next_object = 1\<rparr> =
           (Inr 0, factory0\<lparr>transportMap := [5 \<mapsto> 0]\<rparr>,
            \<lparr>objects = [0 \<mapsto> session_plain], next_object = 1\<rparr>)"
    by simp
  from m o c a b show ?thesis
    by simp
qed

text \<open>
  A call of \<^verbatim>\<open>getTransport\<close> never takes an entry out of the cache, and never replaces
  the session of a transport that has one.
\<close>

lemma getTransport_keeps_entries:
  assumes "transportMap f t = Some a"
  shows "transportMap (fst (snd (getTransport open trans' f h))) t = Some a"
  using assms
  by (cases "transportMap f (handle trans')")
    (auto simp: getTransport_def Let_def split: sum.splits)

text \<open>
  C9. If the cache holds no session for the underlying transport and the negotiation of
  the new session throws, \<^verbatim>\<open>getTransport\<close> ends with that exception, and the factory is
  as it was: the cache has no entry for the transport and every other entry is
  unchanged. The object that was created is gone from the store.
\<close>

theorem getTransport_open_throws:
  assumes "transportMap f (handle trans') = None"
    and "open (TSaslServerTransport_new (factory_serverDefinitionMap f) trans') = Inl e"
  shows "getTransport open trans' f h =
           (Inl e, f, h\<lparr>objects := (objects h)(next_object h := None),
                        next_object := next_object h + 1\<rparr>)
         \<and> transportMap (fst (snd (getTransport open trans' f h))) = transportMap f
         \<and> transportMap (fst (snd (getTransport open trans' f h))) (handle trans') = None"
  using assms by (simp add: getTransport_def Let_def)

theorem getTransport_open_throws_witness:
  "transportMap factory0 (handle (wire0 6 [start_gssapi])) = None
   \<and> open_start (TSaslServerTransport_new (factory_serverDefinitionMap factory0)
                   (wire0 6 [start_gssapi]))
       = Inl (TTransportException BAD_ARGS ''Unsupported mechanism type GSSAPI'')
   \<and> getTransport open_start (wire0 6 [start_gssapi]) factory0 heap0 =
       (Inl (TTransportException BAD_ARGS ''Unsupported mechanism type GSSAPI''),
        factory0, \<lparr>objects = Map.empty, next_object = 1\<rparr>)"
proof -
  have m: "transportMap factory0 (handle (wire0 6 [start_gssapi])) = None"
    by (simp add: factory0_def)
  have o: "open_start (TSaslServerTransport_new (factory_serverDefinitionMap factory0)
                         (wire0 6 [start_gssapi]))
             = Inl (TTransportException BAD_ARGS ''Unsupported mechanism type GSSAPI'')"
    by (simp add: factory0_def open_start_gssapi)
  from getTransport_open_throws
         [of factory0 "wire0 6 [start_gssapi]" open_start
             "TTransportException BAD_ARGS ''Unsupported mechanism type GSSAPI''" heap0,
          THEN conjunct1] m o
  show ?thesis
    by (simp add: heap0_def)
qed

section \<open>Properties of concurrent calls of getTransport\<close>

subsection \<open>One caller alone\<close>

text \<open>
  A thread that runs alone from the lock, on a free mutex, leaves the factory and the
  store as the function \<open>getTransport\<close> above does, and ends with its result or its
  exception; six steps are enough on every path.
\<close>

lemma exec_alone:
  assumes "transportMap_mutex \<sigma> = None" and "pc (threads \<sigma> i) = L105"
  shows "exec open [i, i, i, i, i, i] \<sigma> =
           (case getTransport open (arg_trans (threads \<sigma> i)) (factory \<sigma>) (heap \<sigma>) of
              (r, f, h) \<Rightarrow>
                at_pc i (case r of Inl e \<Rightarrow> Thrown e | Inr a \<Rightarrow> Returned a)
                  (\<sigma>\<lparr>factory := f, heap := h, transportMap_mutex := None\<rparr>))"
proof (cases "transportMap (factory \<sigma>) (handle (arg_trans (threads \<sigma> i)))")
  case (Some cached)
  with assms show ?thesis
    by (simp add: step_def at_pc_def Let_def getTransport_def)
next
  case None
  show ?thesis
  proof (cases "open (TSaslServerTransport_new (factory_serverDefinitionMap (factory \<sigma>))
                       (arg_trans (threads \<sigma> i)))")
    case (Inl e)
    with assms None show ?thesis
      by (simp add: step_def at_pc_def Let_def getTransport_def)
  next
    case (Inr s)
    with assms None show ?thesis
      by (simp add: step_def at_pc_def Let_def getTransport_def)
  qed
qed

subsection \<open>The invariant of the lock\<close>



















subsection \<open>Example runs\<close>






subsection \<open>The scope of the lock\<close>





end
